theory Spec2Isabelle
  imports Main "HOL-Library.AList"
begin

section \<open>Bharati Braille mapping tables (src/backend/mappings.py)\<close>

text \<open>
  The module consists of three module-level constants: the string \<open>halanth\<close> and the
  two dictionaries \<open>braille_to_devanagari_priority\<close> and \<open>braille_to_devanagari\<close>, both
  from a Braille string to a tuple of Devanagari (or ASCII, or punctuation) strings.

  A Python \<open>str\<close> is a sequence of Unicode code points, so a string is modelled as a list
  of code points (integers, written in hexadecimal as in the Unicode charts), and a
  tuple of strings as a list of strings.
\<close>

type_synonym codepoint = int
type_synonym ustr = "codepoint list"
type_synonym table = "(ustr \<times> ustr list) list"

subsection \<open>Dictionary displays\<close>

text \<open>
  Python evaluates a dictionary display \<open>{k1: v1, k2: v2, ...}\<close> from left to right and
  stores each item in turn. A key that is stored again keeps the position of its first
  insertion and takes the new value, so that the last value written for a key is the one
  the dictionary holds. \<open>AList.update\<close> is this store on an insertion-ordered
  association list; \<open>dict_display\<close> folds it over the items of the display, and a
  subscription \<open>d[k]\<close> is \<open>map_of d k\<close>.
\<close>

definition dict_display :: "('k \<times> 'v) list \<Rightarrow> ('k \<times> 'v) list" where
  "dict_display items = foldl (\<lambda>d (k, v). AList.update k v d) [] items"

subsection \<open>The constants of the module\<close>

text \<open>Line 52: the Braille cell dot-4, used for the halanth.\<close>

definition halanth :: ustr where
  "halanth = [0x2808]"

text \<open>Lines 58-63: the items of the priority dictionary as they are written.\<close>

definition braille_to_devanagari_priority_items :: table where
  "braille_to_devanagari_priority_items = [
     ([0x281F], [[0x0915, 0x094D, 0x0937]]),  \<comment> \<open>line 60: letter ka + sign virama + letter ssa\<close>
     ([0x2831], [[0x091C, 0x094D, 0x091E]])  \<comment> \<open>line 62: letter ja + sign virama + letter nya\<close>
   ]"

definition braille_to_devanagari_priority :: table where
  "braille_to_devanagari_priority = dict_display braille_to_devanagari_priority_items"

text \<open>
  Lines 69-174: the items of the main dictionary as they are written, 84 of them, in source
  order. Commented-out entries of the source (line 76) are not items.
\<close>

definition braille_to_devanagari_items :: table where
  "braille_to_devanagari_items = [
     ([0x2808], [[0x094D]]),  \<comment> \<open>line 71: sign virama\<close>
     ([0x2802], [[0x002C]]),  \<comment> \<open>line 72: comma\<close>
     ([0x2806], [[0x003B]]),  \<comment> \<open>line 73: semicolon\<close>
     ([0x2812], [[0x003A]]),  \<comment> \<open>line 74: colon\<close>
     ([0x2832], [[0x0964], [0x0965]]),  \<comment> \<open>line 78: danda\<close>
     ([0x2816], [[0x0021]]),  \<comment> \<open>line 79: exclamation mark\<close>
     ([0x2826], [[0x003F]]),  \<comment> \<open>line 80: question mark\<close>
     ([0x2826], [[0x201C]]),  \<comment> \<open>line 82: left double quotation mark\<close>
     ([0x2834], [[0x201D]]),  \<comment> \<open>line 83: right double quotation mark\<close>
     ([0x2820, 0x2826], [[0x2018]]),  \<comment> \<open>line 84: left single quotation mark\<close>
     ([0x2834, 0x2804], [[0x2019]]),  \<comment> \<open>line 85: right single quotation mark\<close>
     ([0x2836], [[0x0028], [0x0029]]),  \<comment> \<open>line 86: left parenthesis\<close>
     ([0x2820, 0x2836], [[0x005B]]),  \<comment> \<open>line 87: left square bracket\<close>
     ([0x2836, 0x2804], [[0x005D]]),  \<comment> \<open>line 88: right square bracket\<close>
     ([0x2820, 0x2820, 0x2820], [[0x2026]]),  \<comment> \<open>line 89: horizontal ellipsis\<close>
     ([0x2814, 0x2814], [[0x002A]]),  \<comment> \<open>line 90: asterisk\<close>
     ([0x283C, 0x2801], [[0x0031], [0x0967]]),  \<comment> \<open>line 92: digit one\<close>
     ([0x283C, 0x2803], [[0x0032], [0x0968]]),  \<comment> \<open>line 93: digit two\<close>
     ([0x283C, 0x2809], [[0x0033], [0x0969]]),  \<comment> \<open>line 94: digit three\<close>
     ([0x283C, 0x2819], [[0x0034], [0x096A]]),  \<comment> \<open>line 95: digit four\<close>
     ([0x283C, 0x2811], [[0x0035], [0x096B]]),  \<comment> \<open>line 96: digit five\<close>
     ([0x283C, 0x280B], [[0x0036], [0x096C]]),  \<comment> \<open>line 97: digit six\<close>
     ([0x283C, 0x281B], [[0x0037], [0x096D]]),  \<comment> \<open>line 98: digit seven\<close>
     ([0x283C, 0x2813], [[0x0038], [0x096E]]),  \<comment> \<open>line 99: digit eight\<close>
     ([0x283C, 0x280A], [[0x0039], [0x096F]]),  \<comment> \<open>line 100: digit nine\<close>
     ([0x283C, 0x281A], [[0x0030], [0x0966]]),  \<comment> \<open>line 101: digit zero\<close>
     ([0x282C], [[0x002B]]),  \<comment> \<open>line 107: plus sign\<close>
     ([0x2824], [[0x2212]]),  \<comment> \<open>line 108: minus sign\<close>
     ([0x2808, 0x2821], [[0x00D7]]),  \<comment> \<open>line 109: multiplication sign\<close>
     ([0x2828, 0x280C], [[0x00F7]]),  \<comment> \<open>line 110: division sign\<close>
     ([0x2828, 0x2805], [[0x003D]]),  \<comment> \<open>line 111: equals sign\<close>
     ([0x2808, 0x2834, 0x2805], [[0x0025]]),  \<comment> \<open>line 112: percent sign\<close>
     ([0x2820], [[0x0903]]),  \<comment> \<open>line 115: sign visarga\<close>
     ([0x2830], [[0x0902]]),  \<comment> \<open>line 116: sign anusvara\<close>
     ([0x2804], [[0x0901]]),  \<comment> \<open>line 117: sign candrabindu\<close>
     ([0x2801], [[0x0905]]),  \<comment> \<open>line 118: letter a\<close>
     ([0x281C], [[0x0906], [0x093E]]),  \<comment> \<open>line 119: letter aa\<close>
     ([0x280A], [[0x0907], [0x093F]]),  \<comment> \<open>line 120: letter i\<close>
     ([0x2814], [[0x0908], [0x0940]]),  \<comment> \<open>line 121: letter ii\<close>
     ([0x2825], [[0x0909], [0x0941]]),  \<comment> \<open>line 122: letter u\<close>
     ([0x2833], [[0x090A], [0x0942]]),  \<comment> \<open>line 123: letter uu\<close>
     ([0x2810, 0x2817], [[0x0960], [0x090B], [0x0943], [0x0944]]),  \<comment> \<open>line 125: letter vocalic rr\<close>
     ([0x2822], [[0x090D], [0x0945]]),  \<comment> \<open>line 126: letter candra e\<close>
     ([0x2811], [[0x090E], [0x090F], [0x0946], [0x0947]]),  \<comment> \<open>line 128: letter short e\<close>
     ([0x280C], [[0x0910], [0x0948]]),  \<comment> \<open>line 129: letter ai\<close>
     ([0x282D], [[0x0911]]),  \<comment> \<open>line 130: letter candra o\<close>
     ([0x2815], [[0x0912], [0x0913], [0x094A], [0x094B]]),  \<comment> \<open>line 132: letter short o\<close>
     ([0x282A], [[0x0914], [0x094C]]),  \<comment> \<open>line 133: letter au\<close>
     ([0x2805], [[0x0915], [0x0958]]),  \<comment> \<open>line 135: letter ka\<close>
     ([0x2828], [[0x0916], [0x0959]]),  \<comment> \<open>line 136: letter kha\<close>
     ([0x281B], [[0x0917], [0x095A]]),  \<comment> \<open>line 137: letter ga\<close>
     ([0x2823], [[0x0918]]),  \<comment> \<open>line 138: letter gha\<close>
     ([0x282C], [[0x0919]]),  \<comment> \<open>line 139: letter nga\<close>
     ([0x2809], [[0x091A]]),  \<comment> \<open>line 140: letter ca\<close>
     ([0x2821], [[0x091B]]),  \<comment> \<open>line 141: letter cha\<close>
     ([0x281A], [[0x091C], [0x095B]]),  \<comment> \<open>line 143: letter ja\<close>
     ([0x2834], [[0x091D]]),  \<comment> \<open>line 144: letter jha\<close>
     ([0x2812], [[0x091E]]),  \<comment> \<open>line 145: letter nya\<close>
     ([0x283E], [[0x091F]]),  \<comment> \<open>line 146: letter tta\<close>
     ([0x283A], [[0x0920]]),  \<comment> \<open>line 147: letter ttha\<close>
     ([0x282B], [[0x0921]]),  \<comment> \<open>line 148: letter dda\<close>
     ([0x283F], [[0x0922]]),  \<comment> \<open>line 149: letter ddha\<close>
     ([0x283C], [[0x0923]]),  \<comment> \<open>line 150: letter nna\<close>
     ([0x281E], [[0x0924]]),  \<comment> \<open>line 151: letter ta\<close>
     ([0x2839], [[0x0925]]),  \<comment> \<open>line 152: letter tha\<close>
     ([0x2819], [[0x0926]]),  \<comment> \<open>line 153: letter da\<close>
     ([0x282E], [[0x0927]]),  \<comment> \<open>line 154: letter dha\<close>
     ([0x281D], [[0x0928], [0x0929]]),  \<comment> \<open>line 155: letter na\<close>
     ([0x280F], [[0x092A]]),  \<comment> \<open>line 156: letter pa\<close>
     ([0x2816], [[0x092B], [0x095E]]),  \<comment> \<open>line 157: letter pha\<close>
     ([0x2803], [[0x092C]]),  \<comment> \<open>line 158: letter ba\<close>
     ([0x2818], [[0x092D]]),  \<comment> \<open>line 159: letter bha\<close>
     ([0x280D], [[0x092E]]),  \<comment> \<open>line 160: letter ma\<close>
     ([0x283D], [[0x092F], [0x095F]]),  \<comment> \<open>line 161: letter ya\<close>
     ([0x2817], [[0x0930], [0x0931]]),  \<comment> \<open>line 162: letter ra\<close>
     ([0x2807], [[0x0932]]),  \<comment> \<open>line 163: letter la\<close>
     ([0x2838], [[0x0933], [0x0934]]),  \<comment> \<open>line 164: letter lla\<close>
     ([0x2827], [[0x0935]]),  \<comment> \<open>line 165: letter va\<close>
     ([0x2829], [[0x0936]]),  \<comment> \<open>line 166: letter sha\<close>
     ([0x282F], [[0x0937]]),  \<comment> \<open>line 167: letter ssa\<close>
     ([0x280E], [[0x0938]]),  \<comment> \<open>line 168: letter sa\<close>
     ([0x2813], [[0x0939]]),  \<comment> \<open>line 169: letter ha\<close>
     ([0x283B], [[0x095C]]),  \<comment> \<open>line 172: letter dddha\<close>
     ([0x2810, 0x283B], [[0x095D]])  \<comment> \<open>line 173: letter rha\<close>
   ]"

definition braille_to_devanagari :: table where
  "braille_to_devanagari = dict_display braille_to_devanagari_items"

subsection \<open>Predicates on code points\<close>

text \<open>
  The Unicode block Braille Patterns is U+2800 to U+28FF. Its first 64 code points,
  U+2800 to U+283F, are the patterns that raise only dots 1 to 6; every later code point
  of the block raises dot 7 or dot 8.
\<close>

definition braille_pattern :: "codepoint \<Rightarrow> bool" where
  "braille_pattern c \<longleftrightarrow> 0x2800 \<le> c \<and> c \<le> 0x28FF"

definition six_dot_cell :: "codepoint \<Rightarrow> bool" where
  "six_dot_cell c \<longleftrightarrow> 0x2800 \<le> c \<and> c \<le> 0x283F"

section \<open>The converter\<close>

text \<open>
  The comments of the module speak of a converter that reads these tables: priority
  characters are "converted in the first pass", all other characters are "converted
  directly", and the halanth is subject to a "halanth-reversal". That converter is not part
  of the source file. The definitions of this section follow the description of the
  operation \<open>toBraille\<close> in section 4.1 of the specification, under its default
  passthrough policy.
\<close>

text \<open>
  Modelled from the spec: the inverted index built at construction, from Devanagari glyph
  to Braille glyph. Every member of an entry's value tuple is paired with the entry's key,
  entry by entry.
\<close>

definition inverted_index :: "table \<Rightarrow> (ustr \<times> ustr) list" where
  "inverted_index t = concat (map (\<lambda>(k, gs). map (\<lambda>g. (g, k)) gs) t)"

definition devanagari_to_braille_priority :: "(ustr \<times> ustr) list" where
  "devanagari_to_braille_priority = inverted_index braille_to_devanagari_priority"

definition devanagari_to_braille :: "(ustr \<times> ustr) list" where
  "devanagari_to_braille =
     inverted_index (braille_to_devanagari_priority @ braille_to_devanagari)"

text \<open>
  Modelled from the spec: step 1 of \<open>toBraille\<close>, the scan for priority sequences, "left to
  right, non-overlapping, longest-match-first". \<open>longest_match\<close> finds the longest
  sequence of the index that the text starts with (the first listed among equally long
  ones); \<open>priority_pass\<close> replaces it by its Braille glyph and goes on behind it, and
  leaves a code point where no sequence starts for the next step.
\<close>

definition longest_match :: "(ustr \<times> ustr) list \<Rightarrow> ustr \<Rightarrow> (ustr \<times> ustr) option" where
  "longest_match idx text =
     (case filter (\<lambda>(g, k). g \<noteq> [] \<and> take (length g) text = g) idx of
        [] \<Rightarrow> None
      | m # ms \<Rightarrow>
          Some (foldl (\<lambda>best cand. if length (fst best) < length (fst cand) then cand else best)
                  m ms))"

datatype segment = Converted ustr | Remaining codepoint

fun priority_pass :: "(ustr \<times> ustr) list \<Rightarrow> ustr \<Rightarrow> segment list" where
  "priority_pass idx [] = []"
| "priority_pass idx (c # cs) =
     (case longest_match idx (c # cs) of
        None \<Rightarrow> Remaining c # priority_pass idx cs
      | Some (g, k) \<Rightarrow> Converted k # priority_pass idx (drop (length g - 1) cs))"

text \<open>
  Modelled from the spec: steps 2 and 4 of \<open>toBraille\<close>. The remaining text is scanned
  character by character; a character found in the inverted index is replaced by its
  Braille glyph, and a character absent from it is passed through unchanged.
\<close>

definition main_pass :: "(ustr \<times> ustr) list \<Rightarrow> segment list \<Rightarrow> ustr list" where
  "main_pass idx segs =
     map (\<lambda>s. case s of
                 Converted k \<Rightarrow> k
               | Remaining c \<Rightarrow> (case map_of idx [c] of Some k \<Rightarrow> k | None \<Rightarrow> [c]))
       segs"

text \<open>
  Modelled from the spec: step 3 of \<open>toBraille\<close>. For the input C1 HALANT C2 the output
  is brl(C1) HALANT brl(C2): the emitted halanth glyph stands immediately before the glyph
  that follows it, and a halanth glyph with nothing behind it is emitted as a trailing
  glyph.
\<close>

fun halanth_reversal :: "ustr list \<Rightarrow> ustr list" where
  "halanth_reversal [] = []"
| "halanth_reversal [g] = [g]"
| "halanth_reversal (g # n # gs) =
     (if g = halanth then halanth # n # halanth_reversal gs
      else g # halanth_reversal (n # gs))"

text \<open>
  Modelled from the spec: the operation \<open>toBraille\<close>, steps 1 to 5 in their order; step
  5 returns the concatenated Braille string.
\<close>

definition toBraille :: "ustr \<Rightarrow> ustr" where
  "toBraille text =
     concat (halanth_reversal
       (main_pass devanagari_to_braille
         (priority_pass devanagari_to_braille_priority text)))"

section \<open>Properties of dictionary displays\<close>

lemma map_of_foldl_update:
  "map_of (foldl (\<lambda>d (k, v). AList.update k v d) d items) = map_of (rev items @ d)"
proof (induction items arbitrary: d)
  case Nil
  show ?case by simp
next
  case (Cons x xs)
  obtain k v where x: "x = (k, v)" by (cases x)
  have "map_of (AList.update k v d) = map_of ((k, v) # d)"
    by (simp add: AList.update_conv')
  then have "map_of (rev xs @ AList.update k v d) = map_of (rev xs @ (k, v) # d)"
    by (simp add: map_of_append)
  with Cons.IH [of "AList.update k v d"] x show ?case by simp
qed

text \<open>A subscription finds the value written last for the key.\<close>

lemma map_of_dict_display: "map_of (dict_display items) = map_of (rev items)"
  by (simp add: dict_display_def map_of_foldl_update)

lemma distinct_foldl_update:
  "distinct (map fst d) \<Longrightarrow>
   distinct (map fst (foldl (\<lambda>d (k, v). AList.update k v d) d items))"
  by (induction items arbitrary: d) (auto simp: AList.distinct_update)

text \<open>A dictionary holds every key once.\<close>

lemma distinct_dict_display: "distinct (map fst (dict_display items))"
  by (simp add: dict_display_def distinct_foldl_update)

lemma one_entry_per_glyph:
  "distinct (concat (map snd t)) \<Longrightarrow> (k, vs) \<in> set t \<Longrightarrow> (k', vs') \<in> set t \<Longrightarrow>
   g \<in> set vs \<Longrightarrow> g \<in> set vs' \<Longrightarrow> k = k'"
  by (induction t) fastforce+

section \<open>The dictionaries as constructed\<close>

text \<open>
  The priority display has no repeated key. The main display writes five keys twice
  (U+2812, U+2816, U+2826, U+2834 and U+282C), so the dictionary has 79 entries.
\<close>

lemma braille_to_devanagari_priority_eq:
  "braille_to_devanagari_priority =
     [([0x281F], [[0x0915, 0x094D, 0x0937]]), ([0x2831], [[0x091C, 0x094D, 0x091E]])]"
  by code_simp

lemma braille_to_devanagari_eq: "braille_to_devanagari = [
    ([0x2808], [[0x094D]]), ([0x2802], [[0x002C]]), ([0x2806], [[0x003B]]),
     ([0x2812], [[0x091E]]), ([0x2832], [[0x0964], [0x0965]]),
     ([0x2816], [[0x092B], [0x095E]]), ([0x2826], [[0x201C]]), ([0x2834], [[0x091D]]),
     ([0x2820, 0x2826], [[0x2018]]), ([0x2834, 0x2804], [[0x2019]]),
     ([0x2836], [[0x0028], [0x0029]]), ([0x2820, 0x2836], [[0x005B]]),
     ([0x2836, 0x2804], [[0x005D]]), ([0x2820, 0x2820, 0x2820], [[0x2026]]),
     ([0x2814, 0x2814], [[0x002A]]), ([0x283C, 0x2801], [[0x0031], [0x0967]]),
     ([0x283C, 0x2803], [[0x0032], [0x0968]]), ([0x283C, 0x2809], [[0x0033], [0x0969]]),
     ([0x283C, 0x2819], [[0x0034], [0x096A]]), ([0x283C, 0x2811], [[0x0035], [0x096B]]),
     ([0x283C, 0x280B], [[0x0036], [0x096C]]), ([0x283C, 0x281B], [[0x0037], [0x096D]]),
     ([0x283C, 0x2813], [[0x0038], [0x096E]]), ([0x283C, 0x280A], [[0x0039], [0x096F]]),
     ([0x283C, 0x281A], [[0x0030], [0x0966]]), ([0x282C], [[0x0919]]), ([0x2824], [[0x2212]]),
     ([0x2808, 0x2821], [[0x00D7]]), ([0x2828, 0x280C], [[0x00F7]]),
     ([0x2828, 0x2805], [[0x003D]]), ([0x2808, 0x2834, 0x2805], [[0x0025]]),
     ([0x2820], [[0x0903]]), ([0x2830], [[0x0902]]), ([0x2804], [[0x0901]]),
     ([0x2801], [[0x0905]]), ([0x281C], [[0x0906], [0x093E]]),
     ([0x280A], [[0x0907], [0x093F]]), ([0x2814], [[0x0908], [0x0940]]),
     ([0x2825], [[0x0909], [0x0941]]), ([0x2833], [[0x090A], [0x0942]]),
     ([0x2810, 0x2817], [[0x0960], [0x090B], [0x0943], [0x0944]]),
     ([0x2822], [[0x090D], [0x0945]]), ([0x2811], [[0x090E], [0x090F], [0x0946], [0x0947]]),
     ([0x280C], [[0x0910], [0x0948]]), ([0x282D], [[0x0911]]),
     ([0x2815], [[0x0912], [0x0913], [0x094A], [0x094B]]), ([0x282A], [[0x0914], [0x094C]]),
     ([0x2805], [[0x0915], [0x0958]]), ([0x2828], [[0x0916], [0x0959]]),
     ([0x281B], [[0x0917], [0x095A]]), ([0x2823], [[0x0918]]), ([0x2809], [[0x091A]]),
     ([0x2821], [[0x091B]]), ([0x281A], [[0x091C], [0x095B]]), ([0x283E], [[0x091F]]),
     ([0x283A], [[0x0920]]), ([0x282B], [[0x0921]]), ([0x283F], [[0x0922]]),
     ([0x283C], [[0x0923]]), ([0x281E], [[0x0924]]), ([0x2839], [[0x0925]]),
     ([0x2819], [[0x0926]]), ([0x282E], [[0x0927]]), ([0x281D], [[0x0928], [0x0929]]),
     ([0x280F], [[0x092A]]), ([0x2803], [[0x092C]]), ([0x2818], [[0x092D]]),
     ([0x280D], [[0x092E]]), ([0x283D], [[0x092F], [0x095F]]),
     ([0x2817], [[0x0930], [0x0931]]), ([0x2807], [[0x0932]]),
     ([0x2838], [[0x0933], [0x0934]]), ([0x2827], [[0x0935]]), ([0x2829], [[0x0936]]),
     ([0x282F], [[0x0937]]), ([0x280E], [[0x0938]]), ([0x2813], [[0x0939]]),
     ([0x283B], [[0x095C]]), ([0x2810, 0x283B], [[0x095D]])]"
  by code_simp

text \<open>Later evaluations start from the constructed dictionaries.\<close>

declare braille_to_devanagari_priority_eq [code]
declare braille_to_devanagari_eq [code]

lemma distinct_glyphs:
  "distinct (concat (map snd (braille_to_devanagari_priority @ braille_to_devanagari)))"
  by code_simp

section \<open>Properties of the converter\<close>

lemma devanagari_to_braille_priority_eq:
  "devanagari_to_braille_priority =
     [([0x0915, 0x094D, 0x0937], [0x281F]), ([0x091C, 0x094D, 0x091E], [0x2831])]"
  by code_simp

text \<open>The halanth pass leaves the list of glyphs as the earlier passes emitted it.\<close>

lemma halanth_reversal_id: "halanth_reversal gs = gs"
  by (induction gs rule: halanth_reversal.induct) auto

text \<open>
  A text whose first code point occurs in no sequence of the index starts with none of
  them.
\<close>

lemma longest_match_None:
  assumes "\<forall>(g, k) \<in> set idx. \<forall>x \<in> set g. \<not> P x" and "P c"
  shows "longest_match idx (c # cs) = None"
proof -
  have "filter (\<lambda>(g, k). g \<noteq> [] \<and> take (length g) (c # cs) = g) idx = []"
  proof (rule filter_False, clarify)
    fix g k
    assume mem: "(g, k) \<in> set idx" and ne: "g \<noteq> []"
      and tk: "take (length g) (c # cs) = g"
    from ne obtain x xs where g: "g = x # xs" by (cases g) auto
    with tk have "x = c" by simp
    with g have "c \<in> set g" by simp
    with assms mem show False by blast
  qed
  then show ?thesis by (simp add: longest_match_def)
qed

lemma priority_pass_Remaining:
  assumes "\<forall>(g, k) \<in> set idx. \<forall>x \<in> set g. \<not> P x"
  shows "list_all P s \<Longrightarrow> priority_pass idx s = map Remaining s"
  by (induction s) (simp_all add: longest_match_None [OF assms])

lemma map_of_index_None:
  assumes "\<forall>(g, k) \<in> set idx. \<forall>x \<in> set g. \<not> P x" and "s \<noteq> []" and "list_all P s"
  shows "map_of idx s = None"
proof -
  from assms(2) obtain x xs where s: "s = x # xs" by (cases s) auto
  with assms(3) have "P x" by simp
  have "s \<notin> fst ` set idx"
  proof
    assume "s \<in> fst ` set idx"
    then obtain k where "(s, k) \<in> set idx" by auto
    with assms(1) s have "\<not> P x" by fastforce
    with \<open>P x\<close> show False by simp
  qed
  then show ?thesis by (simp add: map_of_eq_None_iff)
qed

lemma main_pass_Remaining:
  assumes "\<forall>(g, k) \<in> set idx. \<forall>x \<in> set g. \<not> P x"
  shows "list_all P s \<Longrightarrow> concat (main_pass idx (map Remaining s)) = s"
  by (induction s) (simp_all add: main_pass_def map_of_index_None [OF assms])

text \<open>No sequence of either index contains a code point of the Braille Patterns block.\<close>

lemma index_not_braille:
  "\<forall>(g, k) \<in> set devanagari_to_braille. \<forall>x \<in> set g. \<not> braille_pattern x"
proof -
  have "list_all (\<lambda>(g, k). list_all (\<lambda>c. \<not> braille_pattern c) g) devanagari_to_braille"
    by code_simp
  then show ?thesis by (auto simp: list_all_iff)
qed

lemma priority_index_not_braille:
  "\<forall>(g, k) \<in> set devanagari_to_braille_priority. \<forall>x \<in> set g. \<not> braille_pattern x"
proof -
  have "list_all (\<lambda>(g, k). list_all (\<lambda>c. \<not> braille_pattern c) g)
          devanagari_to_braille_priority"
    by code_simp
  then show ?thesis by (auto simp: list_all_iff)
qed

lemma toBraille_braille: "list_all braille_pattern s \<Longrightarrow> toBraille s = s"
  by (simp add: toBraille_def halanth_reversal_id
        priority_pass_Remaining [OF priority_index_not_braille]
        main_pass_Remaining [OF index_not_braille])

section \<open>Claims about the tables\<close>

text \<open>
  C1. In the two dictionaries as constructed, every Devanagari glyph is a member of at most
  one value tuple: the members of all value tuples, listed entry by entry, are pairwise
  different, and a glyph found under two keys is found under the same key twice. The
  relation from glyph to Braille key is therefore a function. A glyph mapped from two
  different Braille keys is the one condition the specification gives for a
  ConfigurationError at load time; it does not arise.
\<close>

theorem C1_glyph_in_at_most_one_entry:
  "distinct (concat (map snd (braille_to_devanagari_priority @ braille_to_devanagari))) \<and>
   (\<forall>k vs k' vs' g.
      (k, vs) \<in> set (braille_to_devanagari_priority @ braille_to_devanagari) \<and>
      (k', vs') \<in> set (braille_to_devanagari_priority @ braille_to_devanagari) \<and>
      g \<in> set vs \<and> g \<in> set vs' \<longrightarrow> k = k')"
  using distinct_glyphs one_entry_per_glyph [OF distinct_glyphs] by blast

theorem C1_glyph_in_at_most_one_entry_witness:
  "([0x283C, 0x2811], [[0x35], [0x096B]])
      \<in> set (braille_to_devanagari_priority @ braille_to_devanagari) \<and>
   [0x096B] \<in> set [[0x35], [0x096B :: codepoint]] \<and>
   map fst (filter (\<lambda>(k, vs). [0x096B] \<in> set vs)
      (braille_to_devanagari_priority @ braille_to_devanagari)) = [[0x283C, 0x2811]]"
proof -
  have "([0x283C, 0x2811], [[0x35], [0x096B]])
      \<in> set (braille_to_devanagari_priority @ braille_to_devanagari)"
    by (simp add: braille_to_devanagari_eq)
  moreover have "map fst (filter (\<lambda>(k, vs). [0x096B] \<in> set vs)
      (braille_to_devanagari_priority @ braille_to_devanagari)) = [[0x283C, 0x2811]]"
    by code_simp
  ultimately show ?thesis
    using C1_glyph_in_at_most_one_entry by simp
qed

text \<open>
  C2. The main display writes the key U+2826 twice, first with the question mark and then
  with the opening double quote, and the key U+2834 twice, first with the closing double
  quote and then with JHA. The dictionary keeps one entry for each of the two keys, as for
  every key, and a subscription returns the value written last: U+2826 gives the tuple
  holding the opening double quote and U+2834 the tuple holding JHA.
\<close>

theorem C2_repeated_keys_last_write_wins:
  "map snd (filter (\<lambda>(k, vs). k = [0x2826]) braille_to_devanagari_items)
      = [[[0x003F]], [[0x201C]]] \<and>
   map snd (filter (\<lambda>(k, vs). k = [0x2834]) braille_to_devanagari_items)
      = [[[0x201D]], [[0x091D]]] \<and>
   filter (\<lambda>(k, vs). k = [0x2826]) braille_to_devanagari = [([0x2826], [[0x201C]])] \<and>
   filter (\<lambda>(k, vs). k = [0x2834]) braille_to_devanagari = [([0x2834], [[0x091D]])] \<and>
   distinct (map fst braille_to_devanagari) \<and>
   (\<forall>k. map_of braille_to_devanagari k = map_of (rev braille_to_devanagari_items) k) \<and>
   map_of braille_to_devanagari [0x2826] = Some [[0x201C]] \<and>
   map_of braille_to_devanagari [0x2834] = Some [[0x091D]]"
proof -
  have "map snd (filter (\<lambda>(k, vs). k = [0x2826]) braille_to_devanagari_items)
      = [[[0x003F]], [[0x201C]]]"
    by code_simp
  moreover have "map snd (filter (\<lambda>(k, vs). k = [0x2834]) braille_to_devanagari_items)
      = [[[0x201D]], [[0x091D]]]"
    by code_simp
  moreover have
    "filter (\<lambda>(k, vs). k = [0x2826]) braille_to_devanagari = [([0x2826], [[0x201C]])]"
    by code_simp
  moreover have
    "filter (\<lambda>(k, vs). k = [0x2834]) braille_to_devanagari = [([0x2834], [[0x091D]])]"
    by code_simp
  moreover have "distinct (map fst braille_to_devanagari)"
    by (simp only: braille_to_devanagari_def distinct_dict_display)
  moreover have
    "\<forall>k. map_of braille_to_devanagari k = map_of (rev braille_to_devanagari_items) k"
    by (simp only: braille_to_devanagari_def map_of_dict_display) simp
  moreover have "map_of braille_to_devanagari [0x2826] = Some [[0x201C]]"
    by code_simp
  moreover have "map_of braille_to_devanagari [0x2834] = Some [[0x091D]]"
    by code_simp
  ultimately show ?thesis by blast
qed

text \<open>
  C3. Every code point of the halanth string, of every key of the priority display and of
  every key of the main display (hence of every key of the two dictionaries) lies between
  U+2800 and U+283F: only dots 1 to 6 are used, never dot 7 or dot 8.
\<close>

theorem C3_keys_use_six_dots:
  "list_all six_dot_cell halanth \<and>
   list_all (\<lambda>(k, vs). list_all six_dot_cell k) braille_to_devanagari_priority_items \<and>
   list_all (\<lambda>(k, vs). list_all six_dot_cell k) braille_to_devanagari_items \<and>
   list_all (\<lambda>(k, vs). list_all six_dot_cell k) braille_to_devanagari_priority \<and>
   list_all (\<lambda>(k, vs). list_all six_dot_cell k) braille_to_devanagari"
proof -
  have "list_all six_dot_cell halanth"
    by code_simp
  moreover have
    "list_all (\<lambda>(k, vs). list_all six_dot_cell k) braille_to_devanagari_priority_items"
    by code_simp
  moreover have "list_all (\<lambda>(k, vs). list_all six_dot_cell k) braille_to_devanagari_items"
    by code_simp
  moreover have
    "list_all (\<lambda>(k, vs). list_all six_dot_cell k) braille_to_devanagari_priority"
    by code_simp
  moreover have "list_all (\<lambda>(k, vs). list_all six_dot_cell k) braille_to_devanagari"
    by code_simp
  ultimately show ?thesis by blast
qed

text \<open>
  C10. The main display also writes the keys U+2812 (colon, then NYA), U+2816 (exclamation
  mark, then PHA and FA) and U+282C (plus sign, then NGA) twice. In the dictionary each of
  the three keys holds the consonant tuple written later, and no value tuple of the
  dictionary has the colon, the exclamation mark, the plus sign, the question mark or the
  closing double quote as a member.
\<close>

theorem C10_punctuation_overwritten:
  "map snd (filter (\<lambda>(k, vs). k = [0x2812]) braille_to_devanagari_items)
      = [[[0x003A]], [[0x091E]]] \<and>
   map snd (filter (\<lambda>(k, vs). k = [0x2816]) braille_to_devanagari_items)
      = [[[0x0021]], [[0x092B], [0x095E]]] \<and>
   map snd (filter (\<lambda>(k, vs). k = [0x282C]) braille_to_devanagari_items)
      = [[[0x002B]], [[0x0919]]] \<and>
   map_of braille_to_devanagari [0x2812] = Some [[0x091E]] \<and>
   map_of braille_to_devanagari [0x2816] = Some [[0x092B], [0x095E]] \<and>
   map_of braille_to_devanagari [0x282C] = Some [[0x0919]] \<and>
   list_all (\<lambda>(k, vs). list_all (\<lambda>g. g \<notin> set [[0x003A], [0x0021], [0x002B], [0x003F], [0x201D]]) vs)
      braille_to_devanagari"
proof -
  have "map snd (filter (\<lambda>(k, vs). k = [0x2812]) braille_to_devanagari_items)
      = [[[0x003A]], [[0x091E]]]"
    by code_simp
  moreover have "map snd (filter (\<lambda>(k, vs). k = [0x2816]) braille_to_devanagari_items)
      = [[[0x0021]], [[0x092B], [0x095E]]]"
    by code_simp
  moreover have "map snd (filter (\<lambda>(k, vs). k = [0x282C]) braille_to_devanagari_items)
      = [[[0x002B]], [[0x0919]]]"
    by code_simp
  moreover have "map_of braille_to_devanagari [0x2812] = Some [[0x091E]]"
    by code_simp
  moreover have "map_of braille_to_devanagari [0x2816] = Some [[0x092B], [0x095E]]"
    by code_simp
  moreover have "map_of braille_to_devanagari [0x282C] = Some [[0x0919]]"
    by code_simp
  moreover have
    "list_all (\<lambda>(k, vs). list_all (\<lambda>g. g \<notin> set [[0x003A], [0x0021], [0x002B], [0x003F], [0x201D]]) vs)
      braille_to_devanagari"
    by code_simp
  ultimately show ?thesis by blast
qed

section \<open>Claims about the converter\<close>

text \<open>
  C4. The priority dictionary has exactly two entries: U+281F with the three-character
  conjunct KA VIRAMA SSA, and U+2831 with the three-character conjunct JA VIRAMA NYA. The
  converter replaces a conjunct as a whole before it looks at single characters:
  \<open>toBraille\<close> of KA VIRAMA SSA is the one cell U+281F (also inside a word), whereas its
  three characters converted one by one give U+2805 U+2808 U+282F.
\<close>

theorem C4_priority_conjuncts_atomic:
  "braille_to_devanagari_priority =
     [([0x281F], [[0x0915, 0x094D, 0x0937]]), ([0x2831], [[0x091C, 0x094D, 0x091E]])] \<and>
   length braille_to_devanagari_priority = 2 \<and>
   toBraille [0x0915, 0x094D, 0x0937] = [0x281F] \<and>
   toBraille [0x091C, 0x094D, 0x091E] = [0x2831] \<and>
   toBraille [0x0915, 0x0915, 0x094D, 0x0937, 0x093E] = [0x2805, 0x281F, 0x281C] \<and>
   concat (map (\<lambda>c. toBraille [c]) [0x0915, 0x094D, 0x0937]) = [0x2805, 0x2808, 0x282F] \<and>
   toBraille [0x0915, 0x094D, 0x0937]
     \<noteq> concat (map (\<lambda>c. toBraille [c]) [0x0915, 0x094D, 0x0937])"
proof -
  have "braille_to_devanagari_priority =
     [([0x281F], [[0x0915, 0x094D, 0x0937]]), ([0x2831], [[0x091C, 0x094D, 0x091E]])]"
    by (rule braille_to_devanagari_priority_eq)
  moreover have "length braille_to_devanagari_priority = 2"
    by (simp add: braille_to_devanagari_priority_eq)
  moreover have a: "toBraille [0x0915, 0x094D, 0x0937] = [0x281F]"
    by code_simp
  moreover have "toBraille [0x091C, 0x094D, 0x091E] = [0x2831]"
    by code_simp
  moreover have
    "toBraille [0x0915, 0x0915, 0x094D, 0x0937, 0x093E] = [0x2805, 0x281F, 0x281C]"
    by code_simp
  moreover have b:
    "concat (map (\<lambda>c. toBraille [c]) [0x0915, 0x094D, 0x0937]) = [0x2805, 0x2808, 0x282F]"
    by code_simp
  moreover have "toBraille [0x0915, 0x094D, 0x0937]
     \<noteq> concat (map (\<lambda>c. toBraille [c]) [0x0915, 0x094D, 0x0937])"
    unfolding a b by simp
  ultimately show ?thesis by blast
qed

text \<open>
  C6. The Devanagari digit five and the ASCII digit five are both converted to
  U+283C U+2811. For each of the ten digits, the ASCII digit and the Devanagari digit are
  members of the value tuple of one entry of the main dictionary, and \<open>toBraille\<close> gives
  the same output for the two.
\<close>

theorem C6_digits_share_braille:
  "toBraille [0x096B] = [0x283C, 0x2811] \<and>
   toBraille [0x0035] = [0x283C, 0x2811] \<and>
   toBraille [0x096B] = toBraille [0x0035] \<and>
   list_all
     (\<lambda>d. list_ex (\<lambda>(k, vs). [0x0030 + d] \<in> set vs \<and> [0x0966 + d] \<in> set vs)
            braille_to_devanagari \<and>
          toBraille [0x0030 + d] = toBraille [0x0966 + d])
     [0, 1, 2, 3, 4, 5, 6, 7, 8, 9]"
proof -
  have a: "toBraille [0x096B] = [0x283C, 0x2811]"
    by code_simp
  moreover have b: "toBraille [0x0035] = [0x283C, 0x2811]"
    by code_simp
  moreover have "toBraille [0x096B] = toBraille [0x0035]"
    unfolding a b by (rule refl)
  moreover have "list_all
     (\<lambda>d. list_ex (\<lambda>(k, vs). [0x0030 + d] \<in> set vs \<and> [0x0966 + d] \<in> set vs)
            braille_to_devanagari \<and>
          toBraille [0x0030 + d] = toBraille [0x0966 + d])
     [0, 1, 2, 3, 4, 5, 6, 7, 8, 9]"
    by code_simp
  ultimately show ?thesis by blast
qed

text \<open>
  C9. No code point of any member of any value tuple of the two dictionaries lies in the
  Braille Patterns block. A non-empty string of Braille patterns is therefore no key of the
  inverted index, \<open>toBraille\<close> returns a string of Braille patterns unchanged, and
  applying it twice to such a string gives what applying it once gives.
\<close>

theorem C9_braille_input_unchanged:
  "list_all (\<lambda>(k, vs). list_all (\<lambda>g. list_all (\<lambda>c. \<not> braille_pattern c) g) vs)
      (braille_to_devanagari_priority @ braille_to_devanagari) \<and>
   (\<forall>s. s \<noteq> [] \<and> list_all braille_pattern s \<longrightarrow> map_of devanagari_to_braille s = None) \<and>
   (\<forall>s. list_all braille_pattern s \<longrightarrow>
      toBraille s = s \<and> toBraille (toBraille s) = toBraille s)"
proof -
  have "list_all (\<lambda>(k, vs). list_all (\<lambda>g. list_all (\<lambda>c. \<not> braille_pattern c) g) vs)
      (braille_to_devanagari_priority @ braille_to_devanagari)"
    by code_simp
  moreover have
    "\<forall>s. s \<noteq> [] \<and> list_all braille_pattern s \<longrightarrow> map_of devanagari_to_braille s = None"
    using map_of_index_None [OF index_not_braille] by blast
  moreover have
    "\<forall>s. list_all braille_pattern s \<longrightarrow> toBraille s = s \<and> toBraille (toBraille s) = toBraille s"
    by (simp add: toBraille_braille)
  ultimately show ?thesis by blast
qed

theorem C9_braille_input_unchanged_witness:
  "[0x2805, 0x2808, 0x283D] \<noteq> ([] :: ustr) \<and>
   list_all braille_pattern [0x2805, 0x2808, 0x283D] \<and>
   map_of devanagari_to_braille [0x2805, 0x2808, 0x283D] = None \<and>
   toBraille [0x2805, 0x2808, 0x283D] = [0x2805, 0x2808, 0x283D] \<and>
   toBraille (toBraille [0x2805, 0x2808, 0x283D]) = toBraille [0x2805, 0x2808, 0x283D]"
proof -
  have h: "list_all braille_pattern [0x2805, 0x2808, 0x283D]"
    by (simp add: braille_pattern_def)
  have n: "[0x2805, 0x2808, 0x283D] \<noteq> ([] :: ustr)"
    by simp
  from C9_braille_input_unchanged h n show ?thesis
    by metis
qed

end
